theory Spec2Isabelle
  imports Complex_Main "HOL-Library.Word"
begin

section \<open>JavaScript values\<close>

text \<open>
  A JavaScript string is a sequence of UTF-16 code units. The literals of the source are
  written out as their code units (all of them are in the Basic Multilingual Plane and in
  composed form, as they stand in the source files).
\<close>

type_synonym jsstring = "nat list"

text \<open>
  A \<open>Date\<close> is its time value: a whole number of milliseconds, or \<open>None\<close> for an
  invalid date (time value NaN). \<open>Date.now()\<close> is an input of every operation that
  reads the clock.
\<close>

type_synonym jsdate = "int option"

section \<open>String built-ins of the platform\<close>

text \<open>
  \<open>String.prototype.trim\<close> removes the white space and line terminator code units of
  ECMAScript from both ends.
\<close>

definition is_js_whitespace :: "nat \<Rightarrow> bool" where
  "is_js_whitespace c =
     (c \<in> {0x9, 0xA, 0xB, 0xC, 0xD, 0x20, 0xA0, 0x1680, 0x2028, 0x2029, 0x202F, 0x205F,
            0x3000, 0xFEFF} \<or> (0x2000 \<le> c \<and> c \<le> 0x200A))"

definition trim :: "jsstring \<Rightarrow> jsstring" where
  "trim s = rev (dropWhile is_js_whitespace (rev (dropWhile is_js_whitespace s)))"



definition upper_units :: "nat \<Rightarrow> nat list" where
  "upper_units c =
     (if 0x61 \<le> c \<and> c \<le> 0x7A then [c - 32]
      else if c = 0xDF then [0x53, 0x53]
      else if c = 0xB5 then [0x39C]
      else if c = 0xFF then [0x178]
      else if 0xE0 \<le> c \<and> c \<le> 0xFE \<and> c \<noteq> 0xF7 then [c - 32]
      else if c \<in> {0x103, 0x111, 0x129, 0x169, 0x1A1, 0x1B0} then [c - 1]
      else if 0x1EA1 \<le> c \<and> c \<le> 0x1EF9 \<and> odd c then [c - 1]
      else [c])"

definition toUpperCase :: "jsstring \<Rightarrow> jsstring" where
  "toUpperCase s = concat (map upper_units s)"

text \<open>\<open>s.startsWith(p)\<close> and \<open>s.includes(p)\<close>: a match of \<open>p\<close> at some position of \<open>s\<close>.\<close>

fun starts_with :: "jsstring \<Rightarrow> jsstring \<Rightarrow> bool" where
  "starts_with s [] = True"
| "starts_with [] (p # ps) = False"
| "starts_with (c # cs) (p # ps) = (c = p \<and> starts_with cs ps)"

fun includes_str :: "jsstring \<Rightarrow> jsstring \<Rightarrow> bool" where
  "includes_str [] p = (p = [])"
| "includes_str (c # cs) p = (starts_with (c # cs) p \<or> includes_str cs p)"

text \<open>
  \<open>s.split(sep)\<close> for a separator of one code unit: the pieces between the separators,
  one more than there are separators.
\<close>

fun split_unit :: "nat \<Rightarrow> jsstring \<Rightarrow> jsstring list" where
  "split_unit sep [] = [[]]"
| "split_unit sep (c # cs) =
     (if c = sep then [] # split_unit sep cs
      else (case split_unit sep cs of
              [] \<Rightarrow> [[c]]
            | p # ps \<Rightarrow> (c # p) # ps))"

text \<open>
  A JavaScript number as \<open>parseFloat\<close> can return it: NaN, an infinity, or a finite
  value. The finite value is kept as the exact decimal the text denotes; its rounding to
  the nearest double is outside the model (whole numbers below \<open>2^53\<close> are exact).
\<close>

datatype jsnumber = NaN | PosInfinity | NegInfinity | Number rat

definition is_digit :: "nat \<Rightarrow> bool" where
  "is_digit c = (0x30 \<le> c \<and> c \<le> 0x39)"

definition digits_value :: "jsstring \<Rightarrow> nat" where
  "digits_value ds = foldl (\<lambda>acc c. 10 * acc + (c - 0x30)) 0 ds"

text \<open>\<open>ExponentPart\<close>: \<open>e\<close> or \<open>E\<close>, an optional sign, one digit or more; absent, the exponent is 0.\<close>

definition exponent_part :: "jsstring \<Rightarrow> int" where
  "exponent_part s =
     (case s of
        [] \<Rightarrow> 0
      | c # r \<Rightarrow>
          if c = 0x65 \<or> c = 0x45 then
            (case r of
               [] \<Rightarrow> 0
             | g # r' \<Rightarrow>
                 if g = 0x2D then
                   (if takeWhile is_digit r' = [] then 0
                    else - int (digits_value (takeWhile is_digit r')))
                 else if g = 0x2B then int (digits_value (takeWhile is_digit r'))
                 else int (digits_value (takeWhile is_digit r)))
          else 0)"

definition scale10 :: "rat \<Rightarrow> int \<Rightarrow> rat" where
  "scale10 x e = (if 0 \<le> e then x * 10 ^ nat e else x / 10 ^ nat (- e))"

text \<open>The text \<open>Infinity\<close>.\<close>

definition str_Infinity :: jsstring where
  "str_Infinity = [0x49, 0x6E, 0x66, 0x69, 0x6E, 0x69, 0x74, 0x79]"

text \<open>
  \<open>StrUnsignedDecimalLiteral\<close>: the longest prefix that is \<open>Infinity\<close>, digits with an
  optional fraction and exponent, or a dot followed by digits and an optional exponent.
  \<open>None\<close> when no prefix is one.
\<close>

definition unsigned_literal :: "jsstring \<Rightarrow> (rat option) option" where
  "unsigned_literal s =
     (if starts_with s str_Infinity then Some None
      else
        let ip = takeWhile is_digit s; r1 = dropWhile is_digit s in
        if ip \<noteq> [] then
          (case r1 of
             [] \<Rightarrow> Some (Some (of_nat (digits_value ip)))
           | d # r2 \<Rightarrow>
               if d = 0x2E then
                 (let fp = takeWhile is_digit r2; r3 = dropWhile is_digit r2 in
                  Some (Some (scale10
                    (of_nat (digits_value ip) + of_nat (digits_value fp) / 10 ^ length fp)
                    (exponent_part r3))))
               else Some (Some (scale10 (of_nat (digits_value ip)) (exponent_part r1))))
        else
          (case r1 of
             [] \<Rightarrow> None
           | d # r2 \<Rightarrow>
               if d = 0x2E then
                 (let fp = takeWhile is_digit r2; r3 = dropWhile is_digit r2 in
                  if fp = [] then None
                  else Some (Some (scale10 (of_nat (digits_value fp) / 10 ^ length fp)
                                     (exponent_part r3))))
               else None))"

definition parseFloat :: "jsstring \<Rightarrow> jsnumber" where
  "parseFloat str =
     (let s = dropWhile is_js_whitespace str in
      case s of
        [] \<Rightarrow> NaN
      | c # r \<Rightarrow>
          if c = 0x2D then
            (case unsigned_literal r of
               None \<Rightarrow> NaN | Some None \<Rightarrow> NegInfinity | Some (Some v) \<Rightarrow> Number (- v))
          else
            (case unsigned_literal (if c = 0x2B then r else s) of
               None \<Rightarrow> NaN | Some None \<Rightarrow> PosInfinity | Some (Some v) \<Rightarrow> Number v))"

definition isNaN :: "jsnumber \<Rightarrow> bool" where
  "isNaN x = (x = NaN)"

section \<open>Weather lookup (geminiService)\<close>

text \<open>The message of the error \<open>getAi\<close> throws when the API key is not set.\<close>

definition msg_api_key :: jsstring where
  "msg_api_key =
     [0x42, 0x69, 0x1EBF, 0x6E, 0x20, 0x6D, 0xF4, 0x69, 0x20, 0x74, 0x72, 0x1B0, 0x1EDD,
      0x6E, 0x67, 0x20, 0x41, 0x50, 0x49, 0x5F, 0x4B, 0x45, 0x59, 0x20, 0x63, 0x68, 0x1B0,
      0x61, 0x20, 0x111, 0x1B0, 0x1EE3, 0x63, 0x20, 0x111, 0x1EB7, 0x74, 0x2E]"

text \<open>The phrase that opens the message of the "unexpected weather format" error.\<close>

definition msg_format_prefix :: jsstring where
  "msg_format_prefix =
     [0x110, 0x1ECB, 0x6E, 0x68, 0x20, 0x64, 0x1EA1, 0x6E, 0x67, 0x20, 0x74, 0x68, 0x1EDD,
      0x69, 0x20, 0x74, 0x69, 0x1EBF, 0x74, 0x20, 0x6B, 0x68, 0xF4, 0x6E, 0x67, 0x20, 0x6D,
      0x6F, 0x6E, 0x67, 0x20, 0x111, 0x1EE3, 0x69]"

text \<open>The phrase that opens the message of the "invalid weather data" error.\<close>

definition msg_invalid_prefix :: jsstring where
  "msg_invalid_prefix =
     [0x44, 0x1EEF, 0x20, 0x6C, 0x69, 0x1EC7, 0x75, 0x20, 0x74, 0x68, 0x1EDD, 0x69, 0x20,
      0x74, 0x69, 0x1EBF, 0x74, 0x20, 0x74, 0x72, 0x1EA3, 0x20, 0x76, 0x1EC1, 0x20, 0x6B,
      0x68, 0xF4, 0x6E, 0x67, 0x20, 0x68, 0x1EE3, 0x70, 0x20, 0x6C, 0x1EC7]"

text \<open>The message of the "no weather data found for this location" error.\<close>

definition msg_not_found :: jsstring where
  "msg_not_found =
     [0x4B, 0x68, 0xF4, 0x6E, 0x67, 0x20, 0x74, 0x68, 0x1EC3, 0x20, 0x74, 0xEC, 0x6D, 0x20,
      0x74, 0x68, 0x1EA5, 0x79, 0x20, 0x64, 0x1EEF, 0x20, 0x6C, 0x69, 0x1EC7, 0x75, 0x20,
      0x74, 0x68, 0x1EDD, 0x69, 0x20, 0x74, 0x69, 0x1EBF, 0x74, 0x20, 0x63, 0x68, 0x6F, 0x20,
      0x76, 0x1ECB, 0x20, 0x74, 0x72, 0xED, 0x20, 0x6E, 0xE0, 0x79, 0x2E]"

text \<open>The message that replaces both parsing errors in the \<open>catch\<close> block.\<close>

definition msg_unreadable :: jsstring where
  "msg_unreadable =
     [0x52, 0x1EA5, 0x74, 0x20, 0x74, 0x69, 0x1EBF, 0x63, 0x2C, 0x20, 0x4D, 0x6F, 0x63, 0x68,
      0x69, 0x20, 0x6B, 0x68, 0xF4, 0x6E, 0x67, 0x20, 0x74, 0x68, 0x1EC3, 0x20, 0x111,
      0x1ECD, 0x63, 0x20, 0x111, 0x1B0, 0x1EE3, 0x63, 0x20, 0x64, 0x1EF1, 0x20, 0x62, 0xE1,
      0x6F, 0x20, 0x74, 0x68, 0x1EDD, 0x69, 0x20, 0x74, 0x69, 0x1EBF, 0x74, 0x20, 0x6C, 0xFA,
      0x63, 0x20, 0x6E, 0xE0, 0x79, 0x2E]"

text \<open>The message of the error thrown for a caught value that is not an \<open>Error\<close>.\<close>

definition msg_unknown :: jsstring where
  "msg_unknown =
     [0x4B, 0x68, 0xF4, 0x6E, 0x67, 0x20, 0x74, 0x68, 0x1EC3, 0x20, 0x6C, 0x1EA5, 0x79, 0x20,
      0x64, 0x1EEF, 0x20, 0x6C, 0x69, 0x1EC7, 0x75, 0x20, 0x74, 0x68, 0x1EDD, 0x69, 0x20,
      0x74, 0x69, 0x1EBF, 0x74, 0x20, 0x6E, 0x67, 0x61, 0x79, 0x20, 0x62, 0xE2, 0x79, 0x20,
      0x67, 0x69, 0x1EDD, 0x2E]"

text \<open>The sentinel \<open>NULL\<close>.\<close>

definition str_NULL :: jsstring where
  "str_NULL =
     [0x4E, 0x55, 0x4C, 0x4C]"

record WeatherData =
  temperature :: jsnumber
  condition :: jsstring
  emoji :: jsstring

text \<open>
  A thrown value: an \<open>Error\<close> with its message, the \<open>TypeError\<close> of calling \<open>trim\<close> on
  an undefined response text (its message is the engine's and contains neither parsing
  phrase), or a value that is not an \<open>Error\<close> at all.
\<close>

datatype thrown = Error jsstring | TypeError | NonError

text \<open>What \<open>ai.models.generateContent\<close> does: it throws, or answers with a text that may be undefined.\<close>

datatype remote_result = Throws thrown | Responds "jsstring option"

text \<open>\<open>CacheEntry<WeatherData>\<close>: the data and the expiry time.\<close>

record weather_entry =
  entry_data :: WeatherData
  entry_expiry :: int

text \<open>The module state the lookup touches: \<open>weatherCache\<close> and whether \<open>aiInstance\<close> is set.\<close>

record service_state =
  weatherCache :: "weather_entry option"
  aiInstance :: bool

text \<open>
  The surroundings of one lookup: \<open>Date.now()\<close> at the cache check and at the cache
  update, whether \<open>process.env.API_KEY\<close> is set, and the answer of the remote service to
  the prompt built from a latitude and a longitude.
\<close>

record weather_env =
  now_check :: int
  now_update :: int
  api_key_set :: bool
  generateContent :: "rat \<Rightarrow> rat \<Rightarrow> remote_result"

definition WEATHER_CACHE_DURATION :: int where
  "WEATHER_CACHE_DURATION = 1000 * 60 * 30"

text \<open>\<open>getAi\<close>: the instance if there is one, else an error without the key, else a new instance.\<close>

definition getAi :: "bool \<Rightarrow> service_state \<Rightarrow> (thrown + unit) \<times> service_state" where
  "getAi key st =
     (if aiInstance st then (Inr (), st)
      else if \<not> key then (Inl (Error msg_api_key), st)
      else (Inr (), st\<lparr>aiInstance := True\<rparr>))"

text \<open>
  Lines 188 to 211: the response text is parsed; the result is either a thrown error, or
  the weather data to be cached and returned.
\<close>

definition parse_weather :: "jsstring option \<Rightarrow> thrown + WeatherData" where
  "parse_weather txt =
     (case txt of
        None \<Rightarrow> Inl TypeError
      | Some t \<Rightarrow>
          let responseText = trim t;
              parts = split_unit 0x3B responseText
          in if length parts \<noteq> 3 then Inl (Error (msg_format_prefix @ [0x3A, 0x20] @ responseText))
             else if toUpperCase (parts ! 0) = str_NULL then Inl (Error msg_not_found)
             else
               let temp = parseFloat (parts ! 0);
                   cond = trim (parts ! 1);
                   emo = trim (parts ! 2)
               in if isNaN temp \<or> cond = [] \<or> emo = []
                  then Inl (Error (msg_invalid_prefix @ [0x3A, 0x20] @ responseText))
                  else Inr \<lparr>temperature = temp, condition = cond, emoji = emo\<rparr>)"

text \<open>The \<open>catch\<close> block: the value that leaves the function for a value caught.\<close>

definition weather_catch :: "thrown \<Rightarrow> thrown" where
  "weather_catch e =
     (case e of
        Error m \<Rightarrow>
          if includes_str m msg_format_prefix \<or> includes_str m msg_invalid_prefix
          then Error msg_unreadable
          else Error m
      | TypeError \<Rightarrow> TypeError
      | NonError \<Rightarrow> Error msg_unknown)"

text \<open>
  The \<open>try\<close> block with its \<open>catch\<close>, reached when the cache is empty or expired.
\<close>

definition getWeatherRemote ::
  "weather_env \<Rightarrow> rat \<Rightarrow> rat \<Rightarrow> service_state \<Rightarrow>
   (thrown + WeatherData) \<times> service_state \<times> (rat \<times> rat) list" where
  "getWeatherRemote env latitude longitude st =
     (case getAi (api_key_set env) st of
        (Inl e, st1) \<Rightarrow> (Inl (weather_catch e), st1, [])
      | (Inr u, st1) \<Rightarrow>
          (case generateContent env latitude longitude of
             Throws e \<Rightarrow> (Inl (weather_catch e), st1, [(latitude, longitude)])
           | Responds txt \<Rightarrow>
               (case parse_weather txt of
                  Inl e \<Rightarrow> (Inl (weather_catch e), st1, [(latitude, longitude)])
                | Inr result \<Rightarrow>
                    (Inr result,
                     st1\<lparr>weatherCache :=
                           Some \<lparr>entry_data = result,
                                 entry_expiry = now_update env + WEATHER_CACHE_DURATION\<rparr>\<rparr>,
                     [(latitude, longitude)]))))"

text \<open>
  \<open>getWeatherForLocation(latitude, longitude)\<close>. The result is the value returned or
  thrown, the module state afterwards, and the list of requests sent to the remote
  service (the coordinates of each prompt).
\<close>

definition getWeatherForLocation ::
  "weather_env \<Rightarrow> rat \<Rightarrow> rat \<Rightarrow> service_state \<Rightarrow>
   (thrown + WeatherData) \<times> service_state \<times> (rat \<times> rat) list" where
  "getWeatherForLocation env latitude longitude st =
     (case weatherCache st of
        Some c \<Rightarrow>
          if now_check env < entry_expiry c then (Inr (entry_data c), st, [])
          else getWeatherRemote env latitude longitude st
      | None \<Rightarrow> getWeatherRemote env latitude longitude st)"

text \<open>The two responses of the spec's scenario: 28, the word for "sunny" and the sun emoji; and the sentinel answer.\<close>

definition response_sunny :: jsstring where
  "response_sunny =
     [0x32, 0x38, 0x3B, 0x4E, 0x1EAF, 0x6E, 0x67, 0x3B, 0x2600, 0xFE0F]"

definition response_null :: jsstring where
  "response_null =
     [0x4E, 0x55, 0x4C, 0x4C, 0x3B, 0x4B, 0x68, 0xF4, 0x6E, 0x67, 0x20, 0x74, 0x68, 0x1EC3,
      0x20, 0x78, 0xE1, 0x63, 0x20, 0x111, 0x1ECB, 0x6E, 0x68, 0x3B, 0x2753]"

text \<open>The record the first scenario expects.\<close>

definition weather_sunny :: WeatherData where
  "weather_sunny = \<lparr>temperature = Number 28, condition = [0x4E, 0x1EAF, 0x6E, 0x67], emoji = [0x2600, 0xFE0F]\<rparr>"


text \<open>The cache check of line 163 fails: there is no entry, or \<open>Date.now()\<close> is not before its expiry.\<close>

definition cache_stale :: "weather_env \<Rightarrow> service_state \<Rightarrow> bool" where
  "cache_stale env st = (case weatherCache st of None \<Rightarrow> True | Some c \<Rightarrow> \<not> now_check env < entry_expiry c)"

text \<open>Two surroundings whose remote service gives the two answers, and the state of a fresh module.\<close>

definition env_sunny :: weather_env where
  "env_sunny = \<lparr>now_check = 1000, now_update = 1200, api_key_set = True,
                 generateContent = (\<lambda>lat lon. Responds (Some response_sunny))\<rparr>"

definition env_null :: weather_env where
  "env_null = \<lparr>now_check = 1000, now_update = 1200, api_key_set = True,
                 generateContent = (\<lambda>lat lon. Responds (Some response_null))\<rparr>"

definition service_init :: service_state where
  "service_init = \<lparr>weatherCache = None, aiInstance = False\<rparr>"

section \<open>Alarm service (alarmService)\<close>

record Alarm =
  alarm_id :: nat
  alarm_time :: jsdate
  alarm_label :: jsstring
  alarm_timerId :: nat

text \<open>
  A pending \<open>window.setTimeout\<close> of the alarm service: the handle the platform returned,
  the delay it was given (\<open>None\<close> for NaN) and the two variables its callback closes over.
\<close>

record alarm_timer =
  timer_handle :: nat
  timer_delay :: "int option"
  timer_alarm :: nat
  timer_label :: jsstring

text \<open>
  The module-level state \<open>activeAlarms\<close>, \<open>nextAlarmId\<close>, together with the platform's
  table of pending timeouts and its next handle.
\<close>

record alarm_module =
  activeAlarms :: "Alarm list"
  nextAlarmId :: nat
  pendingTimers :: "alarm_timer list"
  nextTimerHandle :: nat

datatype alarm_effect = AlarmRing jsstring | SpeakAlarm jsstring

definition alarm_init :: alarm_module where
  "alarm_init = \<lparr>activeAlarms = [], nextAlarmId = 1, pendingTimers = [], nextTimerHandle = 1\<rparr>"

text \<open>\<open>time.getTime() - now\<close>; NaN when the date is invalid.\<close>

definition alarm_delay :: "int \<Rightarrow> jsdate \<Rightarrow> int option" where
  "alarm_delay now t = (case t of None \<Rightarrow> None | Some ms \<Rightarrow> Some (ms - now))"

text \<open>\<open>delay < 0\<close>: false for NaN.\<close>

definition delay_negative :: "int option \<Rightarrow> bool" where
  "delay_negative d = (case d of None \<Rightarrow> False | Some x \<Rightarrow> x < 0)"

text \<open>
  \<open>setAlarm(time, label)\<close>. The function has no return value on either path and no
  statement of it can raise: the early return only logs a warning.
\<close>

definition setAlarm :: "int \<Rightarrow> jsdate \<Rightarrow> jsstring \<Rightarrow> alarm_module \<Rightarrow> alarm_module" where
  "setAlarm now t lbl s =
     (let delay = alarm_delay now t in
      if delay_negative delay then s
      else
        let i = nextAlarmId s;
            h = nextTimerHandle s;
            tm = \<lparr>timer_handle = h, timer_delay = delay, timer_alarm = i, timer_label = lbl\<rparr>;
            newAlarm = \<lparr>alarm_id = i, alarm_time = t, alarm_label = lbl, alarm_timerId = h\<rparr>
        in s\<lparr>nextAlarmId := i + 1,
             nextTimerHandle := h + 1,
             pendingTimers := pendingTimers s @ [tm],
             activeAlarms := activeAlarms s @ [newAlarm]\<rparr>)"

text \<open>
  \<open>findIndex(a => a.id === id)\<close> followed by \<open>splice(index, 1)\<close> when the index is not
  \<open>-1\<close>: the first alarm with that id is removed.
\<close>

fun splice_alarm :: "nat \<Rightarrow> Alarm list \<Rightarrow> Alarm list" where
  "splice_alarm i [] = []"
| "splice_alarm i (a # as) = (if alarm_id a = i then as else a # splice_alarm i as)"

fun find_alarm :: "nat \<Rightarrow> Alarm list \<Rightarrow> Alarm option" where
  "find_alarm i [] = None"
| "find_alarm i (a # as) = (if alarm_id a = i then Some a else find_alarm i as)"

fun find_timer :: "nat \<Rightarrow> alarm_timer list \<Rightarrow> alarm_timer option" where
  "find_timer h [] = None"
| "find_timer h (t # ts) = (if timer_handle t = h then Some t else find_timer h ts)"

definition clearTimeout :: "nat \<Rightarrow> alarm_timer list \<Rightarrow> alarm_timer list" where
  "clearTimeout h ts = filter (\<lambda>t. timer_handle t \<noteq> h) ts"

text \<open>The body of the timeout callback of \<open>setAlarm\<close>, closed over \<open>id\<close> and \<open>label\<close>.\<close>

definition alarm_callback ::
  "nat \<Rightarrow> jsstring \<Rightarrow> alarm_module \<Rightarrow> alarm_module \<times> alarm_effect list" where
  "alarm_callback i lbl s =
     (s\<lparr>activeAlarms := splice_alarm i (activeAlarms s)\<rparr>, [AlarmRing lbl, SpeakAlarm lbl])"

text \<open>
  The platform fires the pending timeout with handle \<open>h\<close>: a timeout runs once, so it
  leaves the table before its callback runs. A handle that is not pending fires nothing.
\<close>

definition timer_expires :: "nat \<Rightarrow> alarm_module \<Rightarrow> alarm_module \<times> alarm_effect list" where
  "timer_expires h s =
     (case find_timer h (pendingTimers s) of
        None \<Rightarrow> (s, [])
      | Some t \<Rightarrow>
          alarm_callback (timer_alarm t) (timer_label t)
            (s\<lparr>pendingTimers := clearTimeout h (pendingTimers s)\<rparr>))"

definition cancelAlarm :: "nat \<Rightarrow> alarm_module \<Rightarrow> alarm_module" where
  "cancelAlarm i s =
     (case find_alarm i (activeAlarms s) of
        None \<Rightarrow> s
      | Some a \<Rightarrow>
          s\<lparr>pendingTimers := clearTimeout (alarm_timerId a) (pendingTimers s),
            activeAlarms := splice_alarm i (activeAlarms s)\<rparr>)"

text \<open>\<open>getActiveAlarms\<close>: every alarm without its timer handle.\<close>

definition getActiveAlarms :: "alarm_module \<Rightarrow> (nat \<times> jsdate \<times> jsstring) list" where
  "getActiveAlarms s = map (\<lambda>a. (alarm_id a, alarm_time a, alarm_label a)) (activeAlarms s)"

text \<open>
  What \<open>nextAlarmId++\<close> and the platform's handle counter maintain: ids and handles in
  use are below the next ones to be given out, and no two alarms share an id, no two
  pending timeouts a handle.
\<close>

definition alarm_inv :: "alarm_module \<Rightarrow> bool" where
  "alarm_inv s =
     (list_all (\<lambda>a. alarm_id a < nextAlarmId s) (activeAlarms s) \<and>
      list_all (\<lambda>t. timer_handle t < nextTimerHandle s) (pendingTimers s) \<and>
      distinct (map alarm_id (activeAlarms s)) \<and>
      distinct (map timer_handle (pendingTimers s)))"

text \<open>The label of the spec's reminder scenario ("call mother": G, U+1ECD, i, space, m, U+1EB9).\<close>

definition label_goi_me :: jsstring where
  "label_goi_me = [0x47, 0x1ECD, 0x69, 0x20, 0x6D, 0x1EB9]"

section \<open>Audio codec (createBlob, decodeAudioData)\<close>

text \<open>
  A sample of a \<open>Float32Array\<close> is kept as the rational it denotes. Every step below is
  exact on such values: a product with \<open>32768\<close> and a quotient of a 16-bit integer by
  \<open>32768\<close> need no rounding in binary floating point. NaN and the infinities are not
  samples of the model.

  \<open>trunc\<close> rounds towards zero; storing a number into an \<open>Int16Array\<close> truncates it and
  keeps the low 16 bits as a two's complement value.
\<close>

definition trunc :: "rat \<Rightarrow> int" where
  "trunc x = (if 0 \<le> x then \<lfloor>x\<rfloor> else \<lceil>x\<rceil>)"

definition ToInt16 :: "rat \<Rightarrow> 16 word" where
  "ToInt16 x = word_of_int (trunc x)"

text \<open>
  \<open>new Uint8Array(int16.buffer)\<close>: the bytes of each element, low byte first (every
  platform that runs this code is little-endian). \<open>new Int16Array(data.buffer)\<close> reads
  them back the same way; the constructor raises a \<open>RangeError\<close> when the byte length is
  odd, so the view below is only taken of an even number of bytes.
\<close>

definition int16_bytes :: "16 word \<Rightarrow> 8 word list" where
  "int16_bytes w = [ucast w, ucast (drop_bit 8 w)]"

definition bytes_int16 :: "8 word \<Rightarrow> 8 word \<Rightarrow> 16 word" where
  "bytes_int16 lo hi = ucast lo + 256 * ucast hi"

fun int16_view :: "8 word list \<Rightarrow> 16 word list" where
  "int16_view (lo # hi # bs) = bytes_int16 lo hi # int16_view bs"
| "int16_view bs = []"

text \<open>
  \<open>createBlob(data)\<close>: the loop \<open>int16[i] = data[i] * 32768\<close> and the byte view that is
  handed to \<open>encode\<close>. The base64 text \<open>encode\<close> makes of the bytes (\<open>btoa\<close>) and the
  bytes \<open>decode\<close> makes of that text (\<open>atob\<close>) are the platform's and inverse to each
  other, so the blob is given by its bytes.
\<close>

definition createBlob :: "rat list \<Rightarrow> 8 word list" where
  "createBlob data = concat (map (\<lambda>x. int16_bytes (ToInt16 (x * 32768))) data)"

datatype decode_error = RangeError | NotSupportedError

record AudioBuffer =
  buffer_sampleRate :: nat
  buffer_length :: nat
  buffer_channels :: "rat list list"


definition Int16Array_of_buffer :: "8 word list \<Rightarrow> decode_error + 16 word list" where
  "Int16Array_of_buffer bytes =
     (if odd (length bytes) then Inl RangeError else Inr (int16_view bytes))"

text \<open>
  \<open>ctx.createBuffer(numberOfChannels, length, sampleRate)\<close> raises a \<open>NotSupportedError\<close>
  when an argument is zero; otherwise it gives a buffer of silence. (The upper limits an
  implementation puts on the three arguments are not part of the model.)
\<close>

definition createBuffer :: "nat \<Rightarrow> nat \<Rightarrow> nat \<Rightarrow> decode_error + AudioBuffer" where
  "createBuffer numberOfChannels len sampleRate =
     (if numberOfChannels = 0 \<or> len = 0 \<or> sampleRate = 0 then Inl NotSupportedError
      else Inr \<lparr>buffer_sampleRate = sampleRate, buffer_length = len,
                buffer_channels = replicate numberOfChannels (replicate len 0)\<rparr>)"

text \<open>
  \<open>decodeAudioData(data, ctx, sampleRate, numChannels)\<close>. The quotient
  \<open>dataInt16.length / numChannels\<close> is truncated by \<open>createBuffer\<close>; when it is not whole
  the loop runs one index further, where the write falls outside the channel and is
  dropped, so each channel gets the whole frames only.
\<close>

definition decodeAudioData :: "8 word list \<Rightarrow> nat \<Rightarrow> nat \<Rightarrow> decode_error + AudioBuffer" where
  "decodeAudioData data sampleRate numChannels =
     (case Int16Array_of_buffer data of
        Inl e \<Rightarrow> Inl e
      | Inr dataInt16 \<Rightarrow>
          let frameCount = length dataInt16 div numChannels in
          (case createBuffer numChannels frameCount sampleRate of
             Inl e \<Rightarrow> Inl e
           | Inr buffer \<Rightarrow>
               Inr (buffer\<lparr>buffer_channels :=
                      map (\<lambda>channel.
                             map (\<lambda>i. of_int (sint (dataInt16 ! (i * numChannels + channel))) / 32768)
                               [0..<frameCount])
                          [0..<numChannels]\<rparr>)))"

section \<open>Live session (geminiService): data\<close>

datatype MochiState =
  IDLE | LISTENING | THINKING | SPEAKING | LOADING | ERROR | SLEEPING | ENTERING_DEEP_SLEEP

datatype speaker = User | Mochi

record ChatMessage =
  msg_speaker :: speaker
  msg_text :: jsstring

text \<open>
  An \<open>AudioBufferSourceNode\<close> made by \<open>createBufferSource\<close>: its identity, its buffer and
  the time given to \<open>start\<close>.
\<close>

record AudioSource =
  source_id :: nat
  source_buffer :: AudioBuffer
  source_start :: rat

text \<open>The text a tool call is answered with.\<close>

datatype tool_result =
  ResultError
| ResultSearch jsstring
| ResultReminder jsstring jsdate
| ResultDeepSleep

text \<open>
  What the module does to the outside: the three callbacks, the calls on the transport,
  on the audio nodes and on the other resources, and the settle timeout.
\<close>

datatype effect =
  StateChange MochiState "jsstring option"
| TranscriptionUpdate "ChatMessage option"
| HistoryUpdate "ChatMessage list"
| SendToolResponse jsstring jsstring tool_result
| SourceStart AudioSource
| SourceStop nat
| SetTimeout nat
| SessionClose nat
| TrackStop nat
| ProcessorDisconnect nat
| ContextClose nat

text \<open>
  The module-level variables, the two accumulators that \<open>startLiveSession\<close> keeps in its
  closure, the state of the alarm service module, the number of settle timeouts waiting
  to fire, and the next identity \<open>createBufferSource\<close> gives out. A resource is the
  handle of the platform object, \<open>None\<close> for \<open>null\<close>; the microphone stream is the list of
  its tracks.
\<close>

record session_state =
  session :: "nat option"
  inputAudioContext :: "nat option"
  outputAudioContext :: "nat option"
  microphoneStream :: "nat list option"
  scriptProcessor :: "nat option"
  isSpeaking :: bool
  nextStartTime :: rat
  audioSources :: "AudioSource list"
  conversationHistory :: "ChatMessage list"
  isSuspended :: bool
  deepSleepRequested :: bool
  currentInputTranscription :: jsstring
  currentOutputTranscription :: jsstring
  alarmService :: alarm_module
  settleTimeouts :: nat
  nextSourceId :: nat















section \<open>Live session (geminiService): operations\<close>















text \<open>
  The \<open>onended\<close> callback of a source: it leaves the tracked set.
\<close>

definition source_ended :: "nat \<Rightarrow> session_state \<Rightarrow> session_state" where
  "source_ended i s = s\<lparr>audioSources := filter (\<lambda>src. source_id src \<noteq> i) (audioSources s)\<rparr>"



text \<open>The transcriptions a trace publishes with content.\<close>

fun published :: "effect list \<Rightarrow> ChatMessage list" where
  "published [] = []"
| "published (TranscriptionUpdate (Some c) # es) = c # published es"
| "published (e # es) = published es"









section \<open>Live session (geminiService): stopLiveSession\<close>


















section \<open>Example messages\<close>











section \<open>Example states\<close>











section \<open>Properties of the alarm service\<close>

lemma splice_alarm_fresh:
  "list_all (\<lambda>a. alarm_id a < i) as \<Longrightarrow> splice_alarm i as = as"
  by (induction as) auto

lemma splice_alarm_snoc_fresh:
  "list_all (\<lambda>a. alarm_id a < i) as \<Longrightarrow> alarm_id b = i \<Longrightarrow> splice_alarm i (as @ [b]) = as"
  by (induction as) auto

lemma find_timer_snoc_fresh:
  "list_all (\<lambda>t. timer_handle t < h) ts \<Longrightarrow> timer_handle t' = h \<Longrightarrow>
   find_timer h (ts @ [t']) = Some t'"
  by (induction ts) auto

lemma find_timer_fresh:
  "list_all (\<lambda>t. timer_handle t < h) ts \<Longrightarrow> find_timer h ts = None"
  by (induction ts) auto

lemma clearTimeout_snoc_fresh:
  "list_all (\<lambda>t. timer_handle t < h) ts \<Longrightarrow> timer_handle t' = h \<Longrightarrow>
   clearTimeout h (ts @ [t']) = ts"
  by (induction ts) (auto simp: clearTimeout_def)

lemma alarm_inv_init: "alarm_inv alarm_init"
  by (simp add: alarm_inv_def alarm_init_def)

lemma list_all_less_Suc:
  "list_all (\<lambda>x. f x < (n::nat)) xs \<Longrightarrow> list_all (\<lambda>x. f x < Suc n) xs"
  by (induction xs) auto

lemma fresh_not_in:
  "list_all (\<lambda>x. f x < (n::nat)) xs \<Longrightarrow> n \<notin> f ` set xs"
  by (induction xs) auto

lemma alarm_inv_setAlarm: "alarm_inv s \<Longrightarrow> alarm_inv (setAlarm now t lbl s)"
  by (auto simp: alarm_inv_def setAlarm_def Let_def list_all_less_Suc dest: fresh_not_in)

lemma set_splice_alarm: "set (splice_alarm i as) \<subseteq> set as"
  by (induction as) auto

lemma splice_alarm_keeps:
  "list_all P as \<Longrightarrow> list_all P (splice_alarm i as)"
  by (induction as) auto

lemma splice_alarm_distinct:
  "distinct (map alarm_id as) \<Longrightarrow> distinct (map alarm_id (splice_alarm i as))"
proof (induction as)
  case Nil
  then show ?case by simp
next
  case (Cons a as)
  then show ?case
    using set_splice_alarm [of i as] by auto
qed

lemma splice_alarm_removes:
  "distinct (map alarm_id as) \<Longrightarrow> i \<notin> alarm_id ` set (splice_alarm i as)"
  by (induction as) auto

lemma clearTimeout_removes: "find_timer h (clearTimeout h ts) = None"
  by (induction ts) (auto simp: clearTimeout_def)

lemma clearTimeout_keeps:
  "list_all P ts \<Longrightarrow> list_all P (clearTimeout h ts)"
  by (induction ts) (auto simp: clearTimeout_def)

lemma clearTimeout_distinct:
  "distinct (map timer_handle ts) \<Longrightarrow> distinct (map timer_handle (clearTimeout h ts))"
  by (simp add: clearTimeout_def distinct_map_filter)

lemma alarm_inv_timer_expires: "alarm_inv s \<Longrightarrow> alarm_inv (fst (timer_expires h s))"
  by (auto simp: alarm_inv_def timer_expires_def alarm_callback_def splice_alarm_keeps
        splice_alarm_distinct clearTimeout_keeps clearTimeout_distinct split: option.splits)

lemma alarm_inv_cancelAlarm: "alarm_inv s \<Longrightarrow> alarm_inv (cancelAlarm i s)"
  by (auto simp: alarm_inv_def cancelAlarm_def splice_alarm_keeps
        splice_alarm_distinct clearTimeout_keeps clearTimeout_distinct split: option.splits)

text \<open>
  Claim C8. A time strictly before \<open>now\<close> leaves the whole module state as it was, so
  the list of active alarms keeps its length; \<open>setAlarm\<close> returns nothing and has no
  raising path on either branch. A time at or after \<open>now\<close> appends one alarm and one
  pending timeout with the delay \<open>t - now\<close>; when that timeout fires, the ring callback
  and the spoken reminder get the label, the alarm is gone from the active list, and the
  timeout, being one-shot, cannot fire again. The same holds later on: in every state that
  keeps the ids and handles apart, a pending timeout that fires rings with its label,
  leaves no alarm with its id, and is no longer pending.
\<close>

theorem setAlarm_past_or_future:
  "(t < now \<longrightarrow>
      setAlarm now (Some t) lbl s = s \<and>
      length (getActiveAlarms (setAlarm now (Some t) lbl s)) = length (getActiveAlarms s)) \<and>
   (now \<le> t \<and> alarm_inv s \<longrightarrow>
      (let s1 = setAlarm now (Some t) lbl s;
           h = nextTimerHandle s
       in getActiveAlarms s1 = getActiveAlarms s @ [(nextAlarmId s, Some t, lbl)] \<and>
          pendingTimers s1 = pendingTimers s @
            [\<lparr>timer_handle = h, timer_delay = Some (t - now),
              timer_alarm = nextAlarmId s, timer_label = lbl\<rparr>] \<and>
          alarm_inv s1 \<and>
          snd (timer_expires h s1) = [AlarmRing lbl, SpeakAlarm lbl] \<and>
          getActiveAlarms (fst (timer_expires h s1)) = getActiveAlarms s \<and>
          pendingTimers (fst (timer_expires h s1)) = pendingTimers s \<and>
          timer_expires h (fst (timer_expires h s1)) = (fst (timer_expires h s1), []))) \<and>
   (alarm_inv s \<and> find_timer h' (pendingTimers s) = Some tm \<longrightarrow>
      snd (timer_expires h' s) = [AlarmRing (timer_label tm), SpeakAlarm (timer_label tm)] \<and>
      timer_alarm tm \<notin> alarm_id ` set (activeAlarms (fst (timer_expires h' s))) \<and>
      find_timer h' (pendingTimers (fst (timer_expires h' s))) = None \<and>
      alarm_inv (fst (timer_expires h' s)))"
proof (intro conjI impI)
  assume "t < now"
  then show "setAlarm now (Some t) lbl s = s"
    by (simp add: setAlarm_def alarm_delay_def delay_negative_def)
  then show "length (getActiveAlarms (setAlarm now (Some t) lbl s)) = length (getActiveAlarms s)"
    by simp
next
  assume a: "now \<le> t \<and> alarm_inv s"
  let ?tm = "\<lparr>timer_handle = nextTimerHandle s, timer_delay = Some (t - now),
              timer_alarm = nextAlarmId s, timer_label = lbl\<rparr>"
  let ?al = "\<lparr>alarm_id = nextAlarmId s, alarm_time = Some t, alarm_label = lbl,
              alarm_timerId = nextTimerHandle s\<rparr>"
  have s1: "setAlarm now (Some t) lbl s =
    s\<lparr>nextAlarmId := nextAlarmId s + 1, nextTimerHandle := nextTimerHandle s + 1,
      pendingTimers := pendingTimers s @ [?tm], activeAlarms := activeAlarms s @ [?al]\<rparr>"
    using a by (simp add: setAlarm_def alarm_delay_def delay_negative_def Let_def)
  have A: "list_all (\<lambda>a. alarm_id a < nextAlarmId s) (activeAlarms s)"
    and T: "list_all (\<lambda>t. timer_handle t < nextTimerHandle s) (pendingTimers s)"
    using a by (simp_all add: alarm_inv_def)
  have inv1: "alarm_inv (setAlarm now (Some t) lbl s)"
    using a by (simp add: alarm_inv_setAlarm)
  have ft: "find_timer (nextTimerHandle s) (pendingTimers s @ [?tm]) = Some ?tm"
    by (rule find_timer_snoc_fresh [OF T]) simp
  have ct: "clearTimeout (nextTimerHandle s) (pendingTimers s @ [?tm]) = pendingTimers s"
    by (rule clearTimeout_snoc_fresh [OF T]) simp
  have sp: "splice_alarm (nextAlarmId s) (activeAlarms s @ [?al]) = activeAlarms s"
    by (rule splice_alarm_snoc_fresh [OF A]) simp
  have ex: "timer_expires (nextTimerHandle s) (setAlarm now (Some t) lbl s) =
     (s\<lparr>nextAlarmId := nextAlarmId s + 1, nextTimerHandle := nextTimerHandle s + 1\<rparr>,
      [AlarmRing lbl, SpeakAlarm lbl])"
    by (simp add: s1 timer_expires_def ft ct sp alarm_callback_def)
  have nf: "find_timer (nextTimerHandle s) (pendingTimers s) = None"
    by (rule find_timer_fresh [OF T])
  show "let s1 = setAlarm now (Some t) lbl s;
           h = nextTimerHandle s
       in getActiveAlarms s1 = getActiveAlarms s @ [(nextAlarmId s, Some t, lbl)] \<and>
          pendingTimers s1 = pendingTimers s @
            [\<lparr>timer_handle = h, timer_delay = Some (t - now),
              timer_alarm = nextAlarmId s, timer_label = lbl\<rparr>] \<and>
          alarm_inv s1 \<and>
          snd (timer_expires h s1) = [AlarmRing lbl, SpeakAlarm lbl] \<and>
          getActiveAlarms (fst (timer_expires h s1)) = getActiveAlarms s \<and>
          pendingTimers (fst (timer_expires h s1)) = pendingTimers s \<and>
          timer_expires h (fst (timer_expires h s1)) = (fst (timer_expires h s1), [])"
    unfolding Let_def ex
    using inv1 by (simp add: s1 getActiveAlarms_def timer_expires_def nf)
next
  assume b: "alarm_inv s \<and> find_timer h' (pendingTimers s) = Some tm"
  then have d: "distinct (map alarm_id (activeAlarms s))"
    by (simp add: alarm_inv_def)
  have ex: "timer_expires h' s =
     (s\<lparr>pendingTimers := clearTimeout h' (pendingTimers s),
        activeAlarms := splice_alarm (timer_alarm tm) (activeAlarms s)\<rparr>,
      [AlarmRing (timer_label tm), SpeakAlarm (timer_label tm)])"
    using b by (simp add: timer_expires_def alarm_callback_def)
  show "snd (timer_expires h' s) = [AlarmRing (timer_label tm), SpeakAlarm (timer_label tm)]"
    by (simp add: ex)
  show "timer_alarm tm \<notin> alarm_id ` set (activeAlarms (fst (timer_expires h' s)))"
    using splice_alarm_removes [OF d] by (simp add: ex)
  show "find_timer h' (pendingTimers (fst (timer_expires h' s))) = None"
    by (simp add: ex clearTimeout_removes)
  show "alarm_inv (fst (timer_expires h' s))"
    using b by (simp add: alarm_inv_timer_expires)
qed

theorem setAlarm_past_or_future_witness:
  "setAlarm 1000 (Some 999) label_goi_me alarm_init = alarm_init \<and>
   getActiveAlarms (setAlarm 1000 (Some 601000) label_goi_me alarm_init) =
     [(1, Some 601000, label_goi_me)] \<and>
   snd (timer_expires 1 (setAlarm 1000 (Some 601000) label_goi_me alarm_init)) =
     [AlarmRing label_goi_me, SpeakAlarm label_goi_me] \<and>
   getActiveAlarms (fst (timer_expires 1 (setAlarm 1000 (Some 601000) label_goi_me alarm_init))) = [] \<and>
   1 \<notin> alarm_id ` set (activeAlarms
          (fst (timer_expires 1 (setAlarm 1000 (Some 601000) label_goi_me alarm_init))))"
proof -
  let ?s1 = "setAlarm 1000 (Some 601000) label_goi_me alarm_init"
  let ?tm = "\<lparr>timer_handle = 1, timer_delay = Some 600000, timer_alarm = 1,
              timer_label = label_goi_me\<rparr>"
  have i1: "alarm_inv ?s1"
    by (rule alarm_inv_setAlarm [OF alarm_inv_init])
  have f: "find_timer 1 (pendingTimers ?s1) = Some ?tm"
    by (simp add: setAlarm_def alarm_delay_def delay_negative_def alarm_init_def Let_def)
  show ?thesis
    using setAlarm_past_or_future [of 999 1000 label_goi_me alarm_init]
          setAlarm_past_or_future [of 601000 1000 label_goi_me alarm_init]
          setAlarm_past_or_future [of 0 0 "[]" ?s1 1 ?tm] alarm_inv_init i1 f
    by (simp add: Let_def alarm_init_def getActiveAlarms_def)
qed

section \<open>Properties of the weather lookup\<close>

lemma split_sunny: "split_unit 0x3B response_sunny = [[0x32, 0x38], [0x4E, 0x1EAF, 0x6E, 0x67], [0x2600, 0xFE0F]]"
  by (simp add: response_sunny_def)

lemma trim_sunny: "trim response_sunny = response_sunny"
  by (simp add: response_sunny_def trim_def is_js_whitespace_def)

lemma parseFloat_28: "parseFloat [0x32, 0x38] = Number 28"
  by (simp add: parseFloat_def unsigned_literal_def is_js_whitespace_def str_Infinity_def
        is_digit_def digits_value_def)


lemma trim_Nang: "trim [0x4E, 0x1EAF, 0x6E, 0x67] = [0x4E, 0x1EAF, 0x6E, 0x67]"
  by (simp add: trim_def is_js_whitespace_def)

lemma trim_sun: "trim [0x2600, 0xFE0F] = [0x2600, 0xFE0F]"
  by (simp add: trim_def is_js_whitespace_def)

lemma upper_28: "toUpperCase [0x32, 0x38] = [0x32, 0x38]"
  by (simp add: toUpperCase_def upper_units_def)

lemma parse_weather_sunny: "parse_weather (Some response_sunny) = Inr weather_sunny"
  by (simp add: parse_weather_def trim_sunny split_sunny parseFloat_28 Let_def isNaN_def
        weather_sunny_def upper_28 str_NULL_def trim_Nang trim_sun)

lemma trim_null: "trim response_null = response_null"
  by (simp add: response_null_def trim_def is_js_whitespace_def)

lemma split_null: "split_unit 0x3B response_null =
   [[0x4E, 0x55, 0x4C, 0x4C],
    [0x4B, 0x68, 0xF4, 0x6E, 0x67, 0x20, 0x74, 0x68, 0x1EC3, 0x20, 0x78, 0xE1, 0x63, 0x20, 0x111, 0x1ECB, 0x6E, 0x68],
    [0x2753]]"
  by (simp add: response_null_def)

lemma upper_NULL: "toUpperCase [0x4E, 0x55, 0x4C, 0x4C] = str_NULL"
  by (simp add: toUpperCase_def upper_units_def str_NULL_def)

lemma parse_weather_null: "parse_weather (Some response_null) = Inl (Error msg_not_found)"
  by (simp add: parse_weather_def trim_null split_null upper_NULL Let_def)

lemma not_found_no_format: "\<not> includes_str msg_not_found msg_format_prefix"
  by (simp add: msg_not_found_def msg_format_prefix_def)

lemma not_found_no_invalid: "\<not> includes_str msg_not_found msg_invalid_prefix"
  by (simp add: msg_not_found_def msg_invalid_prefix_def)

lemma weather_catch_not_found: "weather_catch (Error msg_not_found) = Error msg_not_found"
  by (simp add: weather_catch_def not_found_no_format not_found_no_invalid)

lemma getWeather_stale:
  "cache_stale env st \<Longrightarrow> getWeatherForLocation env lat lon st = getWeatherRemote env lat lon st"
  by (simp add: cache_stale_def getWeatherForLocation_def split: option.splits)

lemma getAi_ok:
  "aiInstance st \<or> key \<Longrightarrow> getAi key st = (Inr (), st\<lparr>aiInstance := True\<rparr>)"
  by (auto simp: getAi_def)

text \<open>
  Claim C9. When the lookup goes to the remote service (no cache entry, or an expired one,
  and an API instance or key at hand) and the service answers with the three-field text
  for 28 degrees, sunny, sun emoji, the lookup returns the record with temperature 28 and
  those two texts, and stores it in the cache with the expiry \<open>now + 30 min\<close>. When the
  answer is the sentinel text, the lookup throws the error whose message says that no
  weather data was found for the location, the \<open>catch\<close> block passes it on untouched,
  and the cache is left as it was.
\<close>

theorem weather_scenarios:
  assumes stale: "cache_stale env st" and ai: "aiInstance st \<or> api_key_set env"
  shows "(generateContent env lat lon = Responds (Some response_sunny) \<longrightarrow>
            getWeatherForLocation env lat lon st =
              (Inr weather_sunny,
               st\<lparr>aiInstance := True,
                  weatherCache := Some \<lparr>entry_data = weather_sunny,
                                        entry_expiry = now_update env + 1800000\<rparr>\<rparr>,
               [(lat, lon)])) \<and>
         (generateContent env lat lon = Responds (Some response_null) \<longrightarrow>
            getWeatherForLocation env lat lon st =
              (Inl (Error msg_not_found), st\<lparr>aiInstance := True\<rparr>, [(lat, lon)]) \<and>
            weatherCache (fst (snd (getWeatherForLocation env lat lon st))) = weatherCache st)"
  by (simp add: getWeather_stale [OF stale] getWeatherRemote_def getAi_ok [OF ai]
        parse_weather_sunny parse_weather_null weather_catch_not_found WEATHER_CACHE_DURATION_def)

lemma cache_stale_init: "cache_stale env service_init"
  by (simp add: cache_stale_def service_init_def)

lemma sunny_answers: "generateContent env_sunny lat lon = Responds (Some response_sunny)"
  by (simp add: env_sunny_def)

lemma null_answers: "generateContent env_null lat lon = Responds (Some response_null)"
  by (simp add: env_null_def)

lemma sunny_first_call:
  "getWeatherForLocation env_sunny 21 105 service_init =
     (Inr weather_sunny,
      \<lparr>weatherCache = Some \<lparr>entry_data = weather_sunny, entry_expiry = 1801200\<rparr>,
        aiInstance = True\<rparr>, [(21, 105)])"
proof -
  have k: "aiInstance service_init \<or> api_key_set env_sunny"
    by (simp add: env_sunny_def)
  have u: "now_update env_sunny = 1200"
    by (simp add: env_sunny_def)
  have "getWeatherForLocation env_sunny 21 105 service_init =
     (Inr weather_sunny,
      service_init\<lparr>aiInstance := True,
        weatherCache := Some \<lparr>entry_data = weather_sunny, entry_expiry = 1801200\<rparr>\<rparr>,
      [(21, 105)])"
    by (simp add: getWeather_stale [OF cache_stale_init] getWeatherRemote_def getAi_ok [OF k]
          sunny_answers parse_weather_sunny u WEATHER_CACHE_DURATION_def)
  then show ?thesis
    by (simp add: service_init_def)
qed

theorem weather_scenarios_witness:
  "getWeatherForLocation env_sunny 21 105 service_init =
     (Inr weather_sunny,
      \<lparr>weatherCache = Some \<lparr>entry_data = weather_sunny, entry_expiry = 1801200\<rparr>,
        aiInstance = True\<rparr>, [(21, 105)]) \<and>
   getWeatherForLocation env_null 21 105 service_init =
     (Inl (Error msg_not_found), \<lparr>weatherCache = None, aiInstance = True\<rparr>, [(21, 105)])"
proof -
  have k1: "aiInstance service_init \<or> api_key_set env_sunny"
    and k2: "aiInstance service_init \<or> api_key_set env_null"
    by (simp_all add: env_sunny_def env_null_def)
  have u: "now_update env_sunny = 1200"
    by (simp add: env_sunny_def)
  show ?thesis
    using weather_scenarios [OF cache_stale_init k1, of 21 105]
          weather_scenarios [OF cache_stale_init k2, of 21 105]
    by (simp add: sunny_answers null_answers u service_init_def)
qed

text \<open>
  Claim C10. The cache is not keyed by location. If a call for \<open>(lat1, lon1)\<close> asked the
  remote service and returned \<open>d\<close>, then any later call whose clock is before that
  entry's expiry returns \<open>d\<close> for any \<open>(lat2, lon2)\<close>, leaves the state alone and sends
  no request, whatever the remote service would have answered.
\<close>

theorem weather_cache_ignores_coordinates:
  assumes first: "getWeatherForLocation env1 lat1 lon1 st = (Inr d, st1, [(lat1, lon1)])"
      and fresh: "now_check env2 < now_update env1 + WEATHER_CACHE_DURATION"
  shows "getWeatherForLocation env2 lat2 lon2 st1 = (Inr d, st1, [])"
proof -
  have "weatherCache st1 =
          Some \<lparr>entry_data = d, entry_expiry = now_update env1 + WEATHER_CACHE_DURATION\<rparr>"
    using first
    by (auto simp: getWeatherForLocation_def getWeatherRemote_def
             split: option.splits if_splits prod.splits sum.splits remote_result.splits)
  then show ?thesis
    using fresh by (simp add: getWeatherForLocation_def)
qed

theorem weather_cache_ignores_coordinates_witness:
  "getWeatherForLocation (env_null\<lparr>now_check := 1801199\<rparr>) 10 106
     \<lparr>weatherCache = Some \<lparr>entry_data = weather_sunny, entry_expiry = 1801200\<rparr>,
       aiInstance = True\<rparr> =
   (Inr weather_sunny,
    \<lparr>weatherCache = Some \<lparr>entry_data = weather_sunny, entry_expiry = 1801200\<rparr>,
      aiInstance = True\<rparr>, [])"
proof -
  have fresh: "now_check (env_null\<lparr>now_check := 1801199\<rparr>) < now_update env_sunny + WEATHER_CACHE_DURATION"
    by (simp add: env_sunny_def WEATHER_CACHE_DURATION_def)
  show ?thesis
    by (rule weather_cache_ignores_coordinates [OF sunny_first_call fresh])
qed

section \<open>Properties of the audio codec\<close>

lemma bytes_roundtrip: "bytes_int16 (ucast w) (ucast (drop_bit 8 w)) = (w :: 16 word)"
proof -
  have lo: "(ucast (ucast w :: 8 word) :: 16 word) = take_bit 8 w"
    by (rule bit_word_eqI) (auto simp: bit_simps)
  have hi: "(ucast (ucast (drop_bit 8 w) :: 8 word) :: 16 word) = drop_bit 8 w"
    by (rule bit_word_eqI) (auto simp: bit_simps dest: bit_imp_le_length)
  have "take_bit 8 w + push_bit 8 (drop_bit 8 w) = w"
    using bits_ident [of 8 w] by (simp only: add.commute)
  then show ?thesis
    by (simp add: bytes_int16_def lo hi push_bit_eq_mult mult.commute)
qed

lemma int16_view_createBlob: "int16_view (createBlob xs) = map (\<lambda>x. ToInt16 (x * 32768)) xs"
  by (induction xs) (simp_all add: createBlob_def int16_bytes_def bytes_roundtrip)

lemma length_createBlob: "length (createBlob xs) = 2 * length xs"
  by (induction xs) (simp_all add: createBlob_def int16_bytes_def)


lemma sint_ToInt16:
  assumes "- 32768 \<le> trunc x" "trunc x < 32768"
  shows "sint (ToInt16 x) = trunc x"
  using assms unfolding ToInt16_def
  by (simp add: sint_sbintrunc' signed_take_bit_int_eq_self)

lemma trunc_bounds:
  assumes "- 1 \<le> x" "x < 1"
  shows "- 32768 \<le> trunc (x * 32768)" "trunc (x * 32768) < 32768"
  using assms unfolding trunc_def
  by (auto simp: floor_less_iff le_ceiling_iff ceiling_less_iff le_floor_iff)

lemma trunc_error: "\<bar>of_int (trunc y) - y\<bar> < 1"
  unfolding trunc_def by (auto; linarith)

text \<open>
  One sample below full scale comes back as its product with 32768, truncated, over 32768:
  less than \<open>1/32768\<close> away from the sample.
\<close>

lemma sample_roundtrip:
  assumes "- 1 \<le> x" "x < 1"
  shows "\<bar>of_int (sint (ToInt16 (x * 32768))) / 32768 - x\<bar> < 1 / 32768"
proof -
  have "sint (ToInt16 (x * 32768)) = trunc (x * 32768)"
    by (rule sint_ToInt16) (use assms trunc_bounds in auto)
  moreover have "\<bar>of_int (trunc (x * 32768)) - x * 32768\<bar> < 1"
    by (rule trunc_error)
  ultimately show ?thesis
    by (simp add: field_simps abs_less_iff)
qed

lemma decode_createBlob:
  assumes "xs \<noteq> []" "0 < sr"
  shows "decodeAudioData (createBlob xs) sr 1 =
           Inr \<lparr>buffer_sampleRate = sr, buffer_length = length xs,
                 buffer_channels = [map (\<lambda>x. of_int (sint (ToInt16 (x * 32768))) / 32768) xs]\<rparr>"
proof -
  have "map (\<lambda>i. (of_int (sint (map (\<lambda>x. ToInt16 (x * 32768)) xs ! i)) :: rat) / 32768) [0..<length xs] =
        map (\<lambda>x. of_int (sint (ToInt16 (x * 32768))) / 32768) xs"
    by (rule nth_equalityI) simp_all
  then show ?thesis
    using assms
    by (simp add: decodeAudioData_def Int16Array_of_buffer_def length_createBlob
          int16_view_createBlob createBuffer_def)
qed

lemma codec_roundtrip_below_full_scale:
  assumes "xs \<noteq> []" "\<forall>x \<in> set xs. - 1 \<le> x \<and> x < 1"
  shows "\<exists>ys. decodeAudioData (createBlob xs) 24000 1 =
                Inr \<lparr>buffer_sampleRate = 24000, buffer_length = length xs, buffer_channels = [ys]\<rparr> \<and>
              length ys = length xs \<and>
              (\<forall>i < length xs. \<bar>ys ! i - xs ! i\<bar> < 1 / 32768)"
proof (intro exI conjI allI impI)
  show "decodeAudioData (createBlob xs) 24000 1 =
          Inr \<lparr>buffer_sampleRate = 24000, buffer_length = length xs,
                buffer_channels = [map (\<lambda>x. of_int (sint (ToInt16 (x * 32768))) / 32768) xs]\<rparr>"
    by (rule decode_createBlob) (use assms in auto)
  show "length (map (\<lambda>x. (of_int (sint (ToInt16 (x * 32768))) :: rat) / 32768) xs) = length xs"
    by simp
  fix i assume i: "i < length xs"
  then have "- 1 \<le> xs ! i \<and> xs ! i < 1"
    using assms(2) by auto
  then have "\<bar>of_int (sint (ToInt16 (xs ! i * 32768))) / 32768 - xs ! i\<bar> < 1 / 32768"
    using sample_roundtrip by blast
  then show "\<bar>map (\<lambda>x. of_int (sint (ToInt16 (x * 32768))) / 32768) xs ! i - xs ! i\<bar> < 1 / 32768"
    using i by (simp only: nth_map)
qed

text \<open>
  Claim C4 fails at the upper end of the range. The sample \<open>1\<close> is multiplied to \<open>32768\<close>,
  which does not fit 16 signed bits: the low 16 bits are those of \<open>-32768\<close>, the bytes are
  \<open>00 80\<close>, and the decoder gives \<open>-1\<close>: an error of 2, not of at most \<open>1/32768\<close>.
\<close>

theorem createBlob_full_scale_wraps:
  "createBlob [1] = [0x00, 0x80] \<and>
   decodeAudioData (createBlob [1]) 24000 1 =
     Inr \<lparr>buffer_sampleRate = 24000, buffer_length = 1, buffer_channels = [[- 1]]\<rparr>"
  by (simp add: createBlob_def ToInt16_def trunc_def int16_bytes_def decodeAudioData_def
        Int16Array_of_buffer_def createBuffer_def bytes_int16_def)





section \<open>Properties of stopLiveSession\<close>









section \<open>Properties of the message handler\<close>

subsection \<open>Traces\<close>




subsection \<open>The parts of the handler, one by one\<close>















subsection \<open>Interruption\<close>


lemma published_stops: "published (map (\<lambda>src. SourceStop (source_id src)) xs) = []"
  by (induction xs) simp_all




















subsection \<open>Turn complete\<close>
















subsection \<open>Suspension and wake-up\<close>











subsection \<open>Playback scheduling\<close>















end
